theory Spec2Isabelle
  imports Complex_Main
begin

section \<open>JavaScript values and plain objects\<close>

text \<open>
  The client receives its rowsets, catalog entries and error bodies as parsed JSON and
  inspects them with the loose built-ins of the language (\<open>isNaN\<close>, \<open>typeof\<close>,
  \<open>Date.parse\<close>, truthiness, property access on plain objects). The values the code can
  meet are the JSON scalars, \<open>undefined\<close> (a missing property), \<open>NaN\<close>, and the members
  of \<open>Object.prototype\<close>, which every plain object inherits. A finite number is carried
  as a real: the code looks at a number only through \<open>isNaN\<close>, truthiness and its
  property-key string, and adds 1 only to counts it has created itself. Strings are
  sequences of 8-bit characters, which covers every literal of the source.
  \<open>JObj l\<close> is the object that \<open>Object.prototype\<close> holds under the property name \<open>l\<close>.
\<close>

datatype jsval =
    JUndefined
  | JNull
  | JBool bool
  | JNum real
  | JNaN
  | JStr string
  | JObj string

text \<open>
  What the engine decides and the repository does not: which strings convert to a number
  (\<open>StringToNumber\<close>), which strings \<open>Date.parse\<close> accepts (implementation-defined beyond
  the ISO format), how a finite number prints, and the primitive string of an inherited
  object (the source text of a native function). Every function that depends on one of
  them takes the runtime as its first argument, and the theorems hold for every runtime.
\<close>

record js_runtime =
  StringToNumber_isNaN :: "string \<Rightarrow> bool"
  Date_parse_isNaN :: "string \<Rightarrow> bool"
  Number_toString :: "real \<Rightarrow> string"
  Object_toString :: "string \<Rightarrow> string"

fun ToString :: "js_runtime \<Rightarrow> jsval \<Rightarrow> string" where
  "ToString rt JUndefined = ''undefined''"
| "ToString rt JNull = ''null''"
| "ToString rt (JBool b) = (if b then ''true'' else ''false'')"
| "ToString rt (JNum r) = Number_toString rt r"
| "ToString rt JNaN = ''NaN''"
| "ToString rt (JStr s) = s"
| "ToString rt (JObj l) = Object_toString rt l"

text \<open>\<open>isNaN(v)\<close>: \<open>ToNumber(v)\<close> is \<open>NaN\<close>.\<close>

fun isNaN :: "js_runtime \<Rightarrow> jsval \<Rightarrow> bool" where
  "isNaN rt JUndefined = True"
| "isNaN rt JNull = False"
| "isNaN rt (JBool b) = False"
| "isNaN rt (JNum r) = False"
| "isNaN rt JNaN = True"
| "isNaN rt (JStr s) = StringToNumber_isNaN rt s"
| "isNaN rt (JObj l) = StringToNumber_isNaN rt (Object_toString rt l)"

text \<open>\<open>typeof v === 'boolean'\<close>.\<close>

fun typeof_boolean :: "jsval \<Rightarrow> bool" where
  "typeof_boolean (JBool b) = True"
| "typeof_boolean v = False"

text \<open>\<open>isNaN(Date.parse(v))\<close>: \<open>Date.parse\<close> converts its argument to a string first.\<close>

definition Date_parse_NaN :: "js_runtime \<Rightarrow> jsval \<Rightarrow> bool" where
  "Date_parse_NaN rt v = Date_parse_isNaN rt (ToString rt v)"

fun truthy :: "jsval \<Rightarrow> bool" where
  "truthy JUndefined = False"
| "truthy JNull = False"
| "truthy (JBool b) = b"
| "truthy (JNum r) = (r \<noteq> 0)"
| "truthy JNaN = False"
| "truthy (JStr s) = (s \<noteq> [])"
| "truthy (JObj l) = True"

text \<open>\<open>v === w\<close> on the values above.\<close>

definition strict_eq :: "jsval \<Rightarrow> jsval \<Rightarrow> bool" where
  "strict_eq v w = (v = w \<and> v \<noteq> JNaN)"

text \<open>
  A plain object is the list of its own properties in the order of their creation (for
  a parsed JSON object, the order of its members). The property names that
  \<open>Object.prototype\<close> defines are visible through every plain object that has no own
  property of that name.
\<close>

type_synonym jsobject = "(string \<times> jsval) list"

text \<open>
  \<open>Object.keys\<close> and \<open>Object.values\<close> list the own properties whose names are array
  indices first, in ascending numeric order, and then the others in creation order. An
  array index is the decimal numeral, without a leading zero, of a number below
  \<open>2^32 - 1\<close>.
\<close>

definition isDigit :: "char \<Rightarrow> bool" where
  "isDigit c = (c \<in> set ''0123456789'')"

definition indexValue :: "string \<Rightarrow> nat" where
  "indexValue s = fold (\<lambda>c n. 10 * n + (of_char c - 48)) s 0"

definition isArrayIndex :: "string \<Rightarrow> bool" where
  "isArrayIndex s =
     (s \<noteq> [] \<and> list_all isDigit s \<and> (s = ''0'' \<or> hd s \<noteq> CHR ''0'')
      \<and> indexValue s < 4294967295)"

definition ownProperties :: "jsobject \<Rightarrow> jsobject" where
  "ownProperties obj =
     sort_key (\<lambda>p. indexValue (fst p)) (filter (\<lambda>p. isArrayIndex (fst p)) obj)
     @ filter (\<lambda>p. \<not> isArrayIndex (fst p)) obj"

definition Object_prototype_keys :: "string list" where
  "Object_prototype_keys =
     [''constructor'', ''__defineGetter__'', ''__defineSetter__'', ''hasOwnProperty'',
      ''__lookupGetter__'', ''__lookupSetter__'', ''isPrototypeOf'',
      ''propertyIsEnumerable'', ''toString'', ''valueOf'', ''__proto__'',
      ''toLocaleString'']"

definition Object_keys :: "jsobject \<Rightarrow> string list" where
  "Object_keys obj = map fst (ownProperties obj)"

definition Object_values :: "jsobject \<Rightarrow> jsval list" where
  "Object_values obj = map snd (ownProperties obj)"

text \<open>\<open>obj[k]\<close>: the own property, else the inherited one, else \<open>undefined\<close>.\<close>

definition getProp :: "jsobject \<Rightarrow> string \<Rightarrow> jsval" where
  "getProp obj k =
     (case map_of obj k of
        Some v \<Rightarrow> v
      | None \<Rightarrow> if k \<in> set Object_prototype_keys then JObj k else JUndefined)"

text \<open>Defining an own property (object literal, spread): replace in place or append.\<close>

fun defineOwn :: "jsobject \<Rightarrow> string \<Rightarrow> jsval \<Rightarrow> jsobject" where
  "defineOwn [] k v = [(k, v)]"
| "defineOwn (p # ps) k v = (if fst p = k then (k, v) # ps else p # defineOwn ps k v)"

text \<open>
  \<open>obj[k] = v\<close> for a primitive \<open>v\<close>: an own property is overwritten; otherwise the
  assignment reaches the inherited accessor \<open>__proto__\<close>, whose setter ignores a
  primitive, or creates an own property for any other name.
\<close>

definition setProp :: "jsobject \<Rightarrow> string \<Rightarrow> jsval \<Rightarrow> jsobject" where
  "setProp obj k v =
     (if map_of obj k = None \<and> k = ''__proto__'' then obj else defineOwn obj k v)"

section \<open>Chart inference (App.js, determineChartType)\<close>

datatype chartInfo =
    Line string string
  | Bar string string
  | Pie string

definition numericColumns :: "js_runtime \<Rightarrow> jsobject \<Rightarrow> string list" where
  "numericColumns rt row =
     filter (\<lambda>col. \<not> isNaN rt (getProp row col) \<and> \<not> typeof_boolean (getProp row col))
       (Object_keys row)"

definition categoricalColumns :: "js_runtime \<Rightarrow> jsobject \<Rightarrow> string list" where
  "categoricalColumns rt row =
     filter (\<lambda>col. isNaN rt (getProp row col) \<or> typeof_boolean (getProp row col))
       (Object_keys row)"

definition possibleDateColumns :: "js_runtime \<Rightarrow> jsobject \<Rightarrow> string list" where
  "possibleDateColumns rt row =
     filter (\<lambda>col. \<not> Date_parse_NaN rt (getProp row col)) (categoricalColumns rt row)"

text \<open>\<open>(x || 0) + 1\<close>.\<close>

fun plus_one :: "js_runtime \<Rightarrow> jsval \<Rightarrow> jsval" where
  "plus_one rt JUndefined = JNaN"
| "plus_one rt JNull = JNum 1"
| "plus_one rt (JBool b) = JNum (if b then 2 else 1)"
| "plus_one rt (JNum r) = JNum (r + 1)"
| "plus_one rt JNaN = JNaN"
| "plus_one rt (JStr s) = JStr (s @ ''1'')"
| "plus_one rt (JObj l) = JStr (Object_toString rt l @ ''1'')"

definition or_zero_plus_one :: "js_runtime \<Rightarrow> jsval \<Rightarrow> jsval" where
  "or_zero_plus_one rt x = plus_one rt (if truthy x then x else JNum 0)"

text \<open>
  The body of the \<open>forEach\<close> of both pie loops:
  \<open>const cat = row[col]; categories[cat] = (categories[cat] || 0) + 1\<close>.
  The property key of \<open>cat\<close> is its string.
\<close>

definition count_row :: "js_runtime \<Rightarrow> string \<Rightarrow> jsobject \<Rightarrow> jsobject \<Rightarrow> jsobject" where
  "count_row rt col row categories =
     (let cat = ToString rt (getProp row col)
      in setProp categories cat (or_zero_plus_one rt (getProp categories cat)))"

definition count_categories :: "js_runtime \<Rightarrow> string \<Rightarrow> jsobject list \<Rightarrow> jsobject" where
  "count_categories rt col data = fold (count_row rt col) data []"

text \<open>
  Reading the counts back: a count is a number that is at least 1, and the total of a
  \<open>categories\<close> object adds the numbers among its values.
\<close>

fun isCount :: "jsval \<Rightarrow> bool" where
  "isCount (JNum r) = (r \<ge> 1)"
| "isCount v = False"

fun countValue :: "jsval \<Rightarrow> real" where
  "countValue (JNum r) = r"
| "countValue v = 0"

definition countsTotal :: "jsobject \<Rightarrow> real" where
  "countsTotal categories = sum_list (map countValue (Object_values categories))"

text \<open>
  \<open>determineChartType(data)\<close>; \<open>None\<close> as argument is a \<open>null\<close> or \<open>undefined\<close> rowset,
  \<open>None\<close> as result is \<open>null\<close>. The pie branch builds its \<open>categories\<close> object and
  drops it.
\<close>

fun determineChartType :: "js_runtime \<Rightarrow> jsobject list option \<Rightarrow> chartInfo option" where
  "determineChartType rt None = None"
| "determineChartType rt (Some []) = None"
| "determineChartType rt (Some (row0 # rest)) =
     (let data = row0 # rest;
          numericCols = numericColumns rt row0;
          categoricalCols = categoricalColumns rt row0;
          possibleDateCols = possibleDateColumns rt row0
      in if possibleDateCols \<noteq> [] \<and> numericCols \<noteq> []
         then Some (Line (hd possibleDateCols) (hd numericCols))
         else if categoricalCols \<noteq> [] \<and> numericCols \<noteq> []
         then (if length data \<le> 10
               then Some (Bar (hd categoricalCols) (hd numericCols))
               else Some (Line (hd categoricalCols) (hd numericCols)))
         else if categoricalCols \<noteq> [] \<and> length data \<le> 10
         then (let categories = count_categories rt (hd categoricalCols) data
               in Some (Pie (hd categoricalCols)))
         else None)"

text \<open>
  \<open>getChartData\<close> of \<open>DataVisualization\<close>: the labels and the data of the one dataset.
\<close>

fun getChartData :: "js_runtime \<Rightarrow> jsobject list \<Rightarrow> chartInfo \<Rightarrow> jsval list \<times> jsval list" where
  "getChartData rt data (Pie category) =
     (let categories = count_categories rt category data
      in (map JStr (Object_keys categories), Object_values categories))"
| "getChartData rt data (Line x y) =
     (map (\<lambda>row. getProp row x) data, map (\<lambda>row. getProp row y) data)"
| "getChartData rt data (Bar x y) =
     (map (\<lambda>row. getProp row x) data, map (\<lambda>row. getProp row y) data)"

section \<open>Chat state and handlers (App.js, Chat)\<close>

text \<open>
  The two catalogs of the chat view. An entry of \<open>availableTables\<close> is
  \<open>{name, selected, type}\<close>, an entry of \<open>excelTables\<close> is
  \<open>{name, original_filename, expires_at, selected}\<close>; the fields copied from the
  response are whatever values the response holds.
\<close>

record chat_table =
  name :: jsval
  selected :: bool

record pg_table = chat_table +
  type :: string

record excel_table = chat_table +
  original_filename :: jsval
  expires_at :: jsval

text \<open>
  A message of the conversation: \<open>{type: 'user', content}\<close>,
  \<open>{type: 'error', content}\<close> or \<open>{type: 'bot', content, sql, data, showSql}\<close>.
\<close>

datatype message =
    UserMessage string
  | ErrorMessage jsval
  | BotMessage jsval jsval "jsobject list option" bool

record chat_state =
  messages :: "message list"
  input :: string
  isLoading :: bool
  availableTables :: "pg_table list"
  excelTables :: "excel_table list"

text \<open>The requests the handlers send; a handler returns the new state and its requests.\<close>

datatype request =
    GET_tables
  | GET_excel_tables
  | POST_tables jsval
  | POST_chat string "jsval list"

text \<open>
  A catalog fetch either fails (\<open>None\<close>: the handler logs and leaves the state) or
  yields \<open>response.data\<close>, the list of entries.
\<close>

definition loadExcelTables :: "jsobject list option \<Rightarrow> chat_state \<Rightarrow> chat_state \<times> request list" where
  "loadExcelTables response st =
     (case response of
        None \<Rightarrow> (st, [GET_excel_tables])
      | Some data \<Rightarrow>
          (st\<lparr>excelTables :=
                map (\<lambda>table. \<lparr>name = getProp table ''name'', selected = False,
                               original_filename = getProp table ''original_filename'',
                               expires_at = getProp table ''expires_at''\<rparr>) data\<rparr>,
           [GET_excel_tables]))"

definition loadTables :: "jsobject list option \<Rightarrow> chat_state \<Rightarrow> chat_state \<times> request list" where
  "loadTables response st =
     (case response of
        None \<Rightarrow> (st, [GET_tables])
      | Some data \<Rightarrow>
          (st\<lparr>availableTables :=
                map (\<lambda>table. \<lparr>name = getProp table ''name'', selected = False,
                               type = ''postgresql''\<rparr>) data\<rparr>,
           [GET_tables]))"

definition toggleTableSelection :: "jsval \<Rightarrow> bool \<Rightarrow> chat_state \<Rightarrow> chat_state" where
  "toggleTableSelection tableName isExcel st =
     (if isExcel
      then st\<lparr>excelTables :=
                map (\<lambda>table. if strict_eq (name table) tableName
                               then table\<lparr>selected := \<not> selected table\<rparr> else table)
                  (excelTables st)\<rparr>
      else st\<lparr>availableTables :=
                map (\<lambda>table. if strict_eq (name table) tableName
                               then table\<lparr>selected := \<not> selected table\<rparr> else table)
                  (availableTables st)\<rparr>)"

text \<open>
  \<open>String.prototype.trim\<close> on 8-bit strings: tab, line feed, vertical tab, form feed,
  carriage return, space and no-break space are the white space and line terminators
  of that range.
\<close>

definition isWhiteSpace :: "char \<Rightarrow> bool" where
  "isWhiteSpace c =
     (c \<in> set [CHR 0x09, CHR 0x0A, CHR 0x0B, CHR 0x0C, CHR 0x0D, CHR 0x20, CHR 0xA0])"

definition trim :: "string \<Rightarrow> string" where
  "trim s = rev (dropWhile isWhiteSpace (rev (dropWhile isWhiteSpace s)))"

text \<open>
  The outcome of \<open>axios.post\<close> to the chat endpoint: a response whose body holds
  \<open>answer\<close>, \<open>sql_query\<close> and \<open>data\<close>, or a rejection with an error that may carry a
  response, whose body may be absent, text or a JSON object.
\<close>

datatype response_data = NoData | TextData string | JsonData jsobject

datatype axios_error = NoResponse | ErrorResponse response_data

datatype chat_result =
    Answered jsval jsval "jsobject list option"
  | Rejected axios_error

text \<open>\<open>error.response?.data?.detail\<close>.\<close>

fun error_detail :: "axios_error \<Rightarrow> jsval" where
  "error_detail NoResponse = JUndefined"
| "error_detail (ErrorResponse NoData) = JUndefined"
| "error_detail (ErrorResponse (TextData s)) = JUndefined"
| "error_detail (ErrorResponse (JsonData body)) = getProp body ''detail''"

text \<open>
  \<open>handleSubmit\<close>. The backend is the function from the request body (message, table
  names) to the outcome of the call. \<open>allSelectedTables\<close> is the list the handler
  builds: the names of the selected database tables, then those of the selected
  spreadsheet tables.
\<close>

definition allSelectedTables :: "chat_state \<Rightarrow> jsval list" where
  "allSelectedTables st =
     map name (filter selected (availableTables st)) @ map name (filter selected (excelTables st))"

definition handleSubmit ::
  "(string \<Rightarrow> jsval list \<Rightarrow> chat_result) \<Rightarrow> chat_state \<Rightarrow> chat_state \<times> request list" where
  "handleSubmit backend st =
     (if trim (input st) = [] then (st, [])
      else
        if length (allSelectedTables st) = 0
        then (st\<lparr>messages := messages st @
                   [ErrorMessage (JStr ''Please select at least one table to query.'')]\<rparr>,
              [])
        else
          let st1 = st\<lparr>messages := messages st @ [UserMessage (input st)],
                      input := [], isLoading := True\<rparr>
          in case backend (input st) (allSelectedTables st) of
               Answered answer sql_query rows \<Rightarrow>
                 (st1\<lparr>messages := messages st1 @ [BotMessage answer sql_query rows False],
                      isLoading := False\<rparr>,
                  [POST_chat (input st) (allSelectedTables st)])
             | Rejected err \<Rightarrow>
                 (st1\<lparr>messages := messages st1 @
                        [ErrorMessage
                           (if truthy (error_detail err) then error_detail err
                            else JStr ''Sorry, there was an error processing your request.'')],
                      isLoading := False\<rparr>,
                  [POST_chat (input st) (allSelectedTables st)]))"

section \<open>Table configuration (TableConfig.js)\<close>

text \<open>
  The state of the configuration view that the modelled handlers read or write:
  \<open>tables\<close> is the fetched catalog as received, \<open>availableTables\<close> the names the
  database offers, \<open>loadingStates\<close> the object from table name to pending flag, and
  \<open>error\<close> the inline message (\<open>null\<close> when none).
\<close>

record config_state =
  tables :: "jsobject list"
  availableTables_config :: "jsval list"
  selectedTable :: jsval
  loadingStates :: jsobject
  addingTable :: bool
  error :: jsval

text \<open>
  \<open>loadTables\<close> of the configuration view: store the catalog, then rebuild the pending
  flags with \<open>newLoadingStates[table.name] = table.description === "Analyzing table
  structure..."\<close>, one assignment per entry; the property key of \<open>table.name\<close> is its
  string.
\<close>

definition isAnalyzing :: "jsobject \<Rightarrow> bool" where
  "isAnalyzing table =
     strict_eq (getProp table ''description'') (JStr ''Analyzing table structure...'')"

definition tableKey :: "js_runtime \<Rightarrow> jsobject \<Rightarrow> string" where
  "tableKey rt table = ToString rt (getProp table ''name'')"

definition recordLoadingState :: "js_runtime \<Rightarrow> jsobject \<Rightarrow> jsobject \<Rightarrow> jsobject" where
  "recordLoadingState rt table acc = setProp acc (tableKey rt table) (JBool (isAnalyzing table))"

definition newLoadingStates :: "js_runtime \<Rightarrow> jsobject list \<Rightarrow> jsobject" where
  "newLoadingStates rt data = fold (recordLoadingState rt) data []"

definition loadTables_config ::
  "js_runtime \<Rightarrow> jsobject list option \<Rightarrow> config_state \<Rightarrow> config_state \<times> request list" where
  "loadTables_config rt response st =
     (case response of
        None \<Rightarrow> (st, [GET_tables])
      | Some data \<Rightarrow>
          (st\<lparr>tables := data, loadingStates := newLoadingStates rt data\<rparr>, [GET_tables]))"

text \<open>The condition of the polling effect: \<open>Object.values(loadingStates).some(state => state)\<close>.\<close>

definition hasLoadingTables :: "jsobject \<Rightarrow> bool" where
  "hasLoadingTables ls = list_ex truthy (Object_values ls)"

text \<open>
  What the list shows for a table: the analysis placeholder when
  \<open>loadingStates[table.name]\<close> is truthy, the description otherwise.
\<close>

definition showsAnalyzing :: "js_runtime \<Rightarrow> jsobject \<Rightarrow> jsobject \<Rightarrow> bool" where
  "showsAnalyzing rt ls table = truthy (getProp ls (tableKey rt table))"

text \<open>
  \<open>addTable\<close>: \<open>posted\<close> tells whether the add request succeeds, \<open>refresh\<close> is the
  outcome of the catalog fetch that follows a success. The handler reads
  \<open>selectedTable\<close> as it was when the handler was created.
\<close>

definition markLoading :: "js_runtime \<Rightarrow> config_state \<Rightarrow> config_state" where
  "markLoading rt st =
     st\<lparr>selectedTable := JStr [],
        loadingStates :=
          defineOwn (loadingStates st) (ToString rt (selectedTable st)) (JBool True)\<rparr>"

definition addTable ::
  "js_runtime \<Rightarrow> bool \<Rightarrow> jsobject list option \<Rightarrow> config_state \<Rightarrow> config_state \<times> request list" where
  "addTable rt posted refresh st =
     (if \<not> truthy (selectedTable st) then (st, [])
      else
        let st1 = st\<lparr>addingTable := True\<rparr>
        in if posted
           then (let (st2, reqs) = loadTables_config rt refresh (markLoading rt st1)
                 in (st2\<lparr>addingTable := False\<rparr>, POST_tables (selectedTable st) # reqs))
           else (st1\<lparr>addingTable := False\<rparr>, [POST_tables (selectedTable st)]))"

text \<open>The options of the dropdown: the offered names that no configured table carries.\<close>

definition availableUnconfiguredTables :: "config_state \<Rightarrow> jsval list" where
  "availableUnconfiguredTables st =
     filter (\<lambda>table. \<not> list_ex (\<lambda>configuredTable. strict_eq (getProp configuredTable ''name'') table)
                         (tables st))
       (availableTables_config st)"

section \<open>A runtime for the examples\<close>

text \<open>
  The examples below run on a runtime that answers as the engines do on the strings the
  examples use: a string of decimal digits (or the empty string) converts to a number and
  a string with any other character is taken as not numeric; a string of the shape
  \<open>dddd-dd-dd\<close> is taken as a date and nothing else is; natural numbers print in
  decimal; the inherited functions print in the form of V8.
\<close>

definition isIsoDate :: "string \<Rightarrow> bool" where
  "isIsoDate s =
     (length s = 10 \<and> s ! 4 = CHR ''-'' \<and> s ! 7 = CHR ''-'' \<and>
      list_all isDigit (take 4 s @ take 2 (drop 5 s) @ drop 8 s))"

fun decimal :: "nat \<Rightarrow> string" where
  "decimal n =
     (if n < 10 then [''0123456789'' ! n] else decimal (n div 10) @ [''0123456789'' ! (n mod 10)])"

definition example_runtime :: js_runtime where
  "example_runtime =
     \<lparr>StringToNumber_isNaN = (\<lambda>s. \<not> list_all isDigit s),
      Date_parse_isNaN = (\<lambda>s. \<not> isIsoDate s),
      Number_toString = (\<lambda>r. decimal (nat \<lfloor>r\<rfloor>)),
      Object_toString =
        (\<lambda>l. if l = ''__proto__'' then ''[object Object]''
             else ''function '' @ (if l = ''constructor'' then ''Object'' else l) @
                  ''() { [native code] }'')\<rparr>"

text \<open>
  A state of the configuration view for the examples: \<open>orders\<close> is configured and
  analysed, \<open>customers\<close> is offered and selected in the dropdown; and the catalog the
  backend returns once \<open>customers\<close> has been added.
\<close>

definition example_config :: config_state where
  "example_config =
     \<lparr>tables = [[(''name'', JStr ''orders''), (''description'', JStr ''Order lines'')]],
      availableTables_config = [JStr ''orders'', JStr ''customers''],
      selectedTable = JStr ''customers'',
      loadingStates = [(''orders'', JBool False)],
      addingTable = False,
      error = JNull\<rparr>"

definition example_catalog :: "jsobject list" where
  "example_catalog =
     [[(''name'', JStr ''orders''), (''description'', JStr ''Order lines'')],
      [(''name'', JStr ''customers''), (''description'', JStr ''Analyzing table structure...'')]]"

section \<open>Listing the properties of an object\<close>

lemma set_ownProperties: "set (ownProperties obj) = set obj"
  by (auto simp: ownProperties_def)

lemma Object_keys_set: "set (Object_keys obj) = fst ` set obj"
  by (simp add: Object_keys_def set_ownProperties)

lemma Object_values_all: "list_all P (Object_values obj) \<longleftrightarrow> list_all (\<lambda>p. P (snd p)) obj"
  by (simp add: Object_values_def list_all_iff set_ownProperties)

lemma sum_list_insort_key:
  "sum_list (map f (insort_key g x xs)) = (f x :: real) + sum_list (map f xs)"
  by (induction xs) auto

lemma sum_list_sort_key: "sum_list (map f (sort_key g xs)) = (sum_list (map f xs) :: real)"
  by (induction xs) (auto simp: sum_list_insort_key)

lemma sum_list_partition:
  "sum_list (map f (filter P xs)) + sum_list (map f (filter (\<lambda>x. \<not> P x) xs))
     = (sum_list (map f xs) :: real)"
  by (induction xs) auto

lemma sum_list_ownProperties:
  "sum_list (map f (ownProperties obj)) = (sum_list (map f obj) :: real)"
  by (simp add: ownProperties_def sum_list_sort_key sum_list_partition)

lemma countsTotal_created:
  "countsTotal obj = sum_list (map (\<lambda>p. countValue (snd p)) obj)"
  using sum_list_ownProperties [of "\<lambda>p. countValue (snd p)" obj]
  by (simp add: countsTotal_def Object_values_def comp_def)

section \<open>Chart inference: which chart, on which columns\<close>

lemmas chart_defs = numericColumns_def categoricalColumns_def possibleDateColumns_def
  Object_keys_def Object_values_def ownProperties_def isArrayIndex_def isDigit_def
  getProp_def Date_parse_NaN_def

lemmas example_defs = example_runtime_def isIsoDate_def

lemma numericColumns_keys: "set (numericColumns rt row) \<subseteq> set (Object_keys row)"
  by (auto simp: numericColumns_def)

lemma categoricalColumns_keys: "set (categoricalColumns rt row) \<subseteq> set (Object_keys row)"
  by (auto simp: categoricalColumns_def)

lemma possibleDateColumns_categorical:
  "set (possibleDateColumns rt row) \<subseteq> set (categoricalColumns rt row)"
  by (auto simp: possibleDateColumns_def)

lemma numeric_not_categorical:
  "y \<in> set (numericColumns rt row) \<Longrightarrow> x \<in> set (categoricalColumns rt row) \<Longrightarrow> x \<noteq> y"
  by (auto simp: numericColumns_def categoricalColumns_def)

lemma hd_filter_unique:
  assumes "a \<in> set xs" and "P a" and "\<forall>x \<in> set xs. x \<noteq> a \<longrightarrow> \<not> P x"
  shows "filter P xs \<noteq> [] \<and> hd (filter P xs) = a"
proof -
  from assms(1,2) have ne: "filter P xs \<noteq> []" by (auto simp: filter_empty_conv)
  then have "hd (filter P xs) \<in> set (filter P xs)" by (rule hd_in_set)
  with assms(3) have "hd (filter P xs) = a" by auto
  with ne show ?thesis by simp
qed

text \<open>
  C2. Take a non-empty rowset and two columns \<open>d\<close> and \<open>n\<close> of its first row such
  that the value of \<open>d\<close> is categorical (not a number, or a boolean) and parses as a
  date, the value of \<open>n\<close> is numeric, no other categorical column parses as a date and
  no other column is numeric. Then the chart is a line chart with \<open>d\<close> on the x axis
  and \<open>n\<close> on the y axis, wherever \<open>d\<close> and \<open>n\<close> stand in the row and whatever
  other categorical columns stand before, between or after them.
\<close>

theorem date_column_gives_line:
  assumes "d \<in> set (Object_keys row0)" and "n \<in> set (Object_keys row0)"
    and "isNaN rt (getProp row0 d) \<or> typeof_boolean (getProp row0 d)"
    and "\<not> Date_parse_NaN rt (getProp row0 d)"
    and "\<not> isNaN rt (getProp row0 n)" and "\<not> typeof_boolean (getProp row0 n)"
    and "\<forall>col \<in> set (Object_keys row0). col \<noteq> d \<longrightarrow>
           isNaN rt (getProp row0 col) \<or> typeof_boolean (getProp row0 col) \<longrightarrow>
           Date_parse_NaN rt (getProp row0 col)"
    and "\<forall>col \<in> set (Object_keys row0). col \<noteq> n \<longrightarrow>
           isNaN rt (getProp row0 col) \<or> typeof_boolean (getProp row0 col)"
  shows "determineChartType rt (Some (row0 # rest)) = Some (Line d n)"
proof -
  let ?cat = "\<lambda>col. isNaN rt (getProp row0 col) \<or> typeof_boolean (getProp row0 col)"
  let ?date = "\<lambda>col. ?cat col \<and> \<not> Date_parse_NaN rt (getProp row0 col)"
  let ?num = "\<lambda>col. \<not> isNaN rt (getProp row0 col) \<and> \<not> typeof_boolean (getProp row0 col)"
  have pd: "possibleDateColumns rt row0 = filter ?date (Object_keys row0)"
    by (simp add: possibleDateColumns_def categoricalColumns_def)
  have nc: "numericColumns rt row0 = filter ?num (Object_keys row0)"
    by (simp add: numericColumns_def)
  have "\<forall>col \<in> set (Object_keys row0). col \<noteq> d \<longrightarrow> \<not> ?date col"
    using assms(7) by blast
  from hd_filter_unique [of d "Object_keys row0" ?date, OF assms(1) _ this] assms(3,4)
  have dates: "possibleDateColumns rt row0 \<noteq> [] \<and> hd (possibleDateColumns rt row0) = d"
    by (simp add: pd)
  have "\<forall>col \<in> set (Object_keys row0). col \<noteq> n \<longrightarrow> \<not> ?num col"
    using assms(8) by blast
  from hd_filter_unique [of n "Object_keys row0" ?num, OF assms(2) _ this] assms(5,6)
  have nums: "numericColumns rt row0 \<noteq> [] \<and> hd (numericColumns rt row0) = n"
    by (simp add: nc)
  from dates nums show ?thesis by simp
qed

text \<open>
  The theorem at two first rows: one where a plain categorical column comes first and
  the numeric column stands before the date, one where the date comes first.
\<close>

theorem date_column_gives_line_witness:
  "''day'' \<in> set (Object_keys
       [(''region'', JStr ''north''), (''revenue'', JNum 10), (''day'', JStr ''2024-01-15'')])
   \<and> ''revenue'' \<in> set (Object_keys
       [(''region'', JStr ''north''), (''revenue'', JNum 10), (''day'', JStr ''2024-01-15'')])
   \<and> isNaN example_runtime (JStr ''2024-01-15'')
   \<and> \<not> Date_parse_NaN example_runtime (JStr ''2024-01-15'')
   \<and> \<not> isNaN example_runtime (JNum 10)
   \<and> isNaN example_runtime (JStr ''north'')
   \<and> Date_parse_NaN example_runtime (JStr ''north'')
   \<and> determineChartType example_runtime
        (Some [[(''region'', JStr ''north''), (''revenue'', JNum 10), (''day'', JStr ''2024-01-15'')],
               [(''region'', JStr ''south''), (''revenue'', JNum 20), (''day'', JStr ''2024-01-16'')]])
     = Some (Line ''day'' ''revenue'')
   \<and> determineChartType example_runtime
        (Some [[(''day'', JStr ''2024-01-15''), (''revenue'', JNum 10)],
               [(''day'', JStr ''2024-01-16''), (''revenue'', JNum 20)]])
     = Some (Line ''day'' ''revenue'')"
proof -
  let ?a = "[(''region'', JStr ''north''), (''revenue'', JNum 10), (''day'', JStr ''2024-01-15'')]"
  let ?b = "[(''day'', JStr ''2024-01-15''), (''revenue'', JNum 10)]"
  have keys_a: "Object_keys ?a = [''region'', ''revenue'', ''day'']"
    by (simp add: Object_keys_def ownProperties_def isArrayIndex_def isDigit_def)
  have keys_b: "Object_keys ?b = [''day'', ''revenue'']"
    by (simp add: Object_keys_def ownProperties_def isArrayIndex_def isDigit_def)
  have v1: "isNaN example_runtime (JStr ''2024-01-15'')"
    by (simp add: example_defs isDigit_def)
  have v2: "\<not> Date_parse_NaN example_runtime (JStr ''2024-01-15'')"
    by (simp add: Date_parse_NaN_def example_defs isDigit_def)
  have v3: "\<not> isNaN example_runtime (JNum 10)" by simp
  have v4: "isNaN example_runtime (JStr ''north'')"
    by (simp add: example_defs isDigit_def)
  have v5: "Date_parse_NaN example_runtime (JStr ''north'')"
    by (simp add: Date_parse_NaN_def example_defs)
  have da: "''day'' \<in> set (Object_keys ?a)" and na: "''revenue'' \<in> set (Object_keys ?a)"
    by (simp_all add: keys_a)
  have db: "''day'' \<in> set (Object_keys ?b)" and nb: "''revenue'' \<in> set (Object_keys ?b)"
    by (simp_all add: keys_b)
  have ra: "determineChartType example_runtime
        (Some (?a # [[(''region'', JStr ''south''), (''revenue'', JNum 20),
                      (''day'', JStr ''2024-01-16'')]]))
     = Some (Line ''day'' ''revenue'')"
  proof (rule date_column_gives_line [OF da na])
    show "isNaN example_runtime (getProp ?a ''day'') \<or> typeof_boolean (getProp ?a ''day'')"
      using v1 by (simp add: getProp_def)
    show "\<not> Date_parse_NaN example_runtime (getProp ?a ''day'')"
      using v2 by (simp add: getProp_def)
    show "\<not> isNaN example_runtime (getProp ?a ''revenue'')" by (simp add: getProp_def)
    show "\<not> typeof_boolean (getProp ?a ''revenue'')" by (simp add: getProp_def)
    show "\<forall>col \<in> set (Object_keys ?a). col \<noteq> ''day'' \<longrightarrow>
           isNaN example_runtime (getProp ?a col) \<or> typeof_boolean (getProp ?a col) \<longrightarrow>
           Date_parse_NaN example_runtime (getProp ?a col)"
      using v5 by (simp add: keys_a getProp_def)
    show "\<forall>col \<in> set (Object_keys ?a). col \<noteq> ''revenue'' \<longrightarrow>
           isNaN example_runtime (getProp ?a col) \<or> typeof_boolean (getProp ?a col)"
      using v1 v4 by (simp add: keys_a getProp_def)
  qed
  have rb: "determineChartType example_runtime
        (Some (?b # [[(''day'', JStr ''2024-01-16''), (''revenue'', JNum 20)]]))
     = Some (Line ''day'' ''revenue'')"
  proof (rule date_column_gives_line [OF db nb])
    show "isNaN example_runtime (getProp ?b ''day'') \<or> typeof_boolean (getProp ?b ''day'')"
      using v1 by (simp add: getProp_def)
    show "\<not> Date_parse_NaN example_runtime (getProp ?b ''day'')"
      using v2 by (simp add: getProp_def)
    show "\<not> isNaN example_runtime (getProp ?b ''revenue'')" by (simp add: getProp_def)
    show "\<not> typeof_boolean (getProp ?b ''revenue'')" by (simp add: getProp_def)
    show "\<forall>col \<in> set (Object_keys ?b). col \<noteq> ''day'' \<longrightarrow>
           isNaN example_runtime (getProp ?b col) \<or> typeof_boolean (getProp ?b col) \<longrightarrow>
           Date_parse_NaN example_runtime (getProp ?b col)"
      by (simp add: keys_b getProp_def)
    show "\<forall>col \<in> set (Object_keys ?b). col \<noteq> ''revenue'' \<longrightarrow>
           isNaN example_runtime (getProp ?b col) \<or> typeof_boolean (getProp ?b col)"
      using v1 by (simp add: keys_b getProp_def)
  qed
  show ?thesis using da na v1 v2 v3 v4 v5 ra rb by simp
qed



text \<open>Beyond 11 rows the chart stays a line chart.\<close>

lemma categorical_numeric_many_rows:
  assumes "categoricalColumns rt row0 = [c]" and "possibleDateColumns rt row0 = []"
    and "numericColumns rt row0 = [n]" and "10 < length (row0 # rest)"
  shows "determineChartType rt (Some (row0 # rest)) = Some (Line c n)"
  using assms by simp

lemma determineChartType_axes:
  assumes "determineChartType rt (Some (row0 # rest)) = Some (Line x y)
         \<or> determineChartType rt (Some (row0 # rest)) = Some (Bar x y)"
  shows "y \<in> set (numericColumns rt row0) \<and> x \<in> set (categoricalColumns rt row0)"
proof -
  let ?nc = "numericColumns rt row0" and ?cc = "categoricalColumns rt row0"
    and ?pd = "possibleDateColumns rt row0"
  from assms have nc: "?nc \<noteq> []" and y: "y = hd ?nc"
    by (auto simp: Let_def split: if_splits)
  from assms have x: "(?pd \<noteq> [] \<and> x = hd ?pd) \<or> (?cc \<noteq> [] \<and> x = hd ?cc)"
    by (auto simp: Let_def split: if_splits)
  have "x \<in> set ?cc"
    using x possibleDateColumns_categorical [of rt row0] hd_in_set by fastforce
  moreover have "y \<in> set ?nc" using nc y by simp
  ultimately show ?thesis by simp
qed

lemma determineChartType_category:
  assumes "determineChartType rt (Some (row0 # rest)) = Some (Pie c)"
  shows "c \<in> set (categoricalColumns rt row0)"
  using assms by (auto simp: Let_def split: if_splits)

text \<open>
  C10. On a non-empty rowset, the x and y columns of a returned bar or line chart are
  two different column names of the first row, y numeric and x categorical, and the
  category column of a returned pie chart is a column name of the first row.
\<close>

theorem chart_columns_bound:
  "(\<forall>x y. determineChartType rt (Some (row0 # rest)) = Some (Line x y)
            \<or> determineChartType rt (Some (row0 # rest)) = Some (Bar x y)
        \<longrightarrow> x \<in> set (Object_keys row0) \<and> y \<in> set (Object_keys row0) \<and> x \<noteq> y
            \<and> y \<in> set (numericColumns rt row0) \<and> x \<in> set (categoricalColumns rt row0))
   \<and> (\<forall>c. determineChartType rt (Some (row0 # rest)) = Some (Pie c)
        \<longrightarrow> c \<in> set (Object_keys row0))"
proof (intro conjI allI impI)
  fix x y
  assume a: "determineChartType rt (Some (row0 # rest)) = Some (Line x y)
           \<or> determineChartType rt (Some (row0 # rest)) = Some (Bar x y)"
  from determineChartType_axes [OF a]
  have y: "y \<in> set (numericColumns rt row0)" and x: "x \<in> set (categoricalColumns rt row0)"
    by simp_all
  show "x \<in> set (Object_keys row0)" using x categoricalColumns_keys by blast
  show "y \<in> set (Object_keys row0)" using y numericColumns_keys by blast
  show "x \<noteq> y" using numeric_not_categorical [OF y x] .
  show "y \<in> set (numericColumns rt row0)" by (rule y)
  show "x \<in> set (categoricalColumns rt row0)" by (rule x)
next
  fix c
  assume "determineChartType rt (Some (row0 # rest)) = Some (Pie c)"
  from determineChartType_category [OF this] categoricalColumns_keys
  show "c \<in> set (Object_keys row0)" by blast
qed

theorem chart_columns_bound_witness:
  "determineChartType example_runtime
     (Some [[(''region'', JStr ''north''), (''total'', JNum 5)]]) = Some (Bar ''region'' ''total'')
   \<and> ''region'' \<in> set (Object_keys [(''region'', JStr ''north''), (''total'', JNum 5)])
   \<and> ''total'' \<in> set (Object_keys [(''region'', JStr ''north''), (''total'', JNum 5)])
   \<and> ''region'' \<noteq> ''total''
   \<and> ''total'' \<in> set (numericColumns example_runtime
                          [(''region'', JStr ''north''), (''total'', JNum 5)])
   \<and> ''region'' \<in> set (categoricalColumns example_runtime
                           [(''region'', JStr ''north''), (''total'', JNum 5)])
   \<and> determineChartType example_runtime (Some [[(''status'', JStr ''ok'')]])
     = Some (Pie ''status'')
   \<and> ''status'' \<in> set (Object_keys [(''status'', JStr ''ok'')])"
proof -
  let ?row = "[(''region'', JStr ''north''), (''total'', JNum 5)]"
  have bar: "determineChartType example_runtime (Some [?row]) = Some (Bar ''region'' ''total'')"
    by (simp add: chart_defs example_defs)
  have pie: "determineChartType example_runtime (Some [[(''status'', JStr ''ok'')]])
               = Some (Pie ''status'')"
    by (simp add: chart_defs example_defs)
  from chart_columns_bound [of example_runtime ?row "[]"] bar
  have a: "''region'' \<in> set (Object_keys ?row) \<and> ''total'' \<in> set (Object_keys ?row)
         \<and> ''region'' \<noteq> ''total''
         \<and> ''total'' \<in> set (numericColumns example_runtime ?row)
         \<and> ''region'' \<in> set (categoricalColumns example_runtime ?row)"
    by blast
  from chart_columns_bound [of example_runtime "[(''status'', JStr ''ok'')]" "[]"] pie
  have b: "''status'' \<in> set (Object_keys [(''status'', JStr ''ok'')])" by blast
  show ?thesis using bar pie a b by blast
qed

section \<open>Pie charts: the category counts\<close>

lemma defineOwn_absent: "map_of obj k = None \<Longrightarrow> defineOwn obj k v = obj @ [(k, v)]"
  by (induction obj) (auto split: if_splits)

lemma map_of_defineOwn: "map_of (defineOwn obj k v) = (map_of obj)(k \<mapsto> v)"
  by (induction obj) (auto simp: fun_eq_iff)

lemma defineOwn_total:
  "map_of obj k = Some w \<Longrightarrow>
     countsTotal (defineOwn obj k v) + countValue w = countsTotal obj + countValue v"
  by (induction obj) (auto simp: countsTotal_created split: if_splits)

lemma defineOwn_all:
  "list_all P (Object_values obj) \<Longrightarrow> P v \<Longrightarrow> list_all P (Object_values (defineOwn obj k v))"
  unfolding Object_values_all by (induction obj) auto

lemma map_of_value:
  "map_of obj k = Some w \<Longrightarrow> list_all P (Object_values obj) \<Longrightarrow> P w"
  unfolding Object_values_all by (induction obj) (auto split: if_splits)

lemma isCount_cases: "isCount w \<Longrightarrow> \<exists>r. w = JNum r \<and> r \<ge> 1"
  by (cases w) auto

lemma getProp_own: "map_of obj k = Some v \<Longrightarrow> getProp obj k = v"
  by (simp add: getProp_def)

lemma getProp_absent:
  "map_of obj k = None \<Longrightarrow> k \<notin> set Object_prototype_keys \<Longrightarrow> getProp obj k = JUndefined"
  by (simp add: getProp_def)

lemma setProp_plain: "k \<notin> set Object_prototype_keys \<Longrightarrow> setProp obj k v = defineOwn obj k v"
  by (auto simp: setProp_def Object_prototype_keys_def)

text \<open>
  One row whose category is not a name that \<open>Object.prototype\<close> defines: every value of
  \<open>categories\<close> stays a count and the total grows by one.
\<close>

lemma count_row_counts:
  assumes ok: "list_all isCount (Object_values categories)"
    and key: "ToString rt (getProp row col) \<notin> set Object_prototype_keys"
  shows "list_all isCount (Object_values (count_row rt col row categories))
       \<and> countsTotal (count_row rt col row categories) = countsTotal categories + 1"
proof -
  define cat where "cat = ToString rt (getProp row col)"
  have step: "count_row rt col row categories
      = defineOwn categories cat (or_zero_plus_one rt (getProp categories cat))"
    using key by (simp add: count_row_def cat_def setProp_plain Let_def)
  show ?thesis
  proof (cases "map_of categories cat")
    case None
    with key have "getProp categories cat = JUndefined"
      by (simp add: getProp_absent cat_def)
    with step None have "count_row rt col row categories = categories @ [(cat, JNum 1)]"
      by (simp add: or_zero_plus_one_def defineOwn_absent)
    with ok show ?thesis by (simp add: countsTotal_created Object_values_all)
  next
    case (Some w)
    from map_of_value [OF Some ok] isCount_cases obtain r where w: "w = JNum r" and r: "r \<ge> 1"
      by blast
    from Some w r step have eq: "count_row rt col row categories
        = defineOwn categories cat (JNum (r + 1))"
      by (simp add: getProp_own or_zero_plus_one_def)
    from r have "isCount (JNum (r + 1))" by simp
    from defineOwn_all [OF ok this] defineOwn_total [OF Some, of "JNum (r + 1)"] w eq
    show ?thesis by simp
  qed
qed

lemma fold_count_row_counts:
  assumes "list_all isCount (Object_values categories)"
    and "\<forall>row \<in> set data. ToString rt (getProp row col) \<notin> set Object_prototype_keys"
  shows "list_all isCount (Object_values (fold (count_row rt col) data categories))
       \<and> countsTotal (fold (count_row rt col) data categories)
           = countsTotal categories + real (length data)"
  using assms
proof (induction data arbitrary: categories)
  case Nil
  then show ?case by simp
next
  case (Cons row data)
  from Cons.prems have key: "ToString rt (getProp row col) \<notin> set Object_prototype_keys"
    and rest: "\<forall>row \<in> set data. ToString rt (getProp row col) \<notin> set Object_prototype_keys"
    by simp_all
  from count_row_counts [OF Cons.prems(1) key]
  have ok: "list_all isCount (Object_values (count_row rt col row categories))"
    and tot: "countsTotal (count_row rt col row categories) = countsTotal categories + 1"
    by simp_all
  from Cons.IH [OF ok rest] tot show ?case by simp
qed

text \<open>
  When no category of the rowset is a name that \<open>Object.prototype\<close> defines, the values
  of the pie are counts and they add up to the number of rows.
\<close>

lemma count_categories_total:
  assumes "\<forall>row \<in> set data. ToString rt (getProp row col) \<notin> set Object_prototype_keys"
  shows "list_all isCount (Object_values (count_categories rt col data))
       \<and> countsTotal (count_categories rt col data) = real (length data)"
  using fold_count_row_counts [of "[]" data rt col] assms
  by (simp add: count_categories_def countsTotal_created Object_values_all)

text \<open>
  A category that is a name \<open>Object.prototype\<close> defines is never counted, on any
  engine: the first row of such a category stores a string, and for \<open>__proto__\<close> it
  stores nothing.
\<close>

lemma count_row_inherited_key:
  assumes "ToString rt (getProp row col) = k" and "k \<in> set Object_prototype_keys"
    and "k \<noteq> ''__proto__''"
  shows "count_row rt col row [] = [(k, JStr (Object_toString rt k @ ''1''))]"
  using assms by (simp add: count_row_def getProp_def setProp_def or_zero_plus_one_def)

lemma count_row_proto_key:
  assumes "ToString rt (getProp row col) = ''__proto__''"
  shows "count_row rt col row [] = []"
  using assms by (simp add: count_row_def setProp_def)

text \<open>The shape is a pie on the one categorical column, whatever its values are.\<close>

lemma single_categorical_gives_pie:
  assumes "categoricalColumns rt row0 = [c]" and "numericColumns rt row0 = []"
    and "length (row0 # rest) \<le> 10"
  shows "determineChartType rt (Some (row0 # rest)) = Some (Pie c)"
  using assms by simp

text \<open>The example of the specification: three rows, two \<open>ok\<close> and one \<open>fail\<close>.\<close>

lemma status_example:
  "determineChartType example_runtime
     (Some [[(''status'', JStr ''ok'')], [(''status'', JStr ''ok'')], [(''status'', JStr ''fail'')]])
     = Some (Pie ''status'')
   \<and> getChartData example_runtime
       [[(''status'', JStr ''ok'')], [(''status'', JStr ''ok'')], [(''status'', JStr ''fail'')]]
       (Pie ''status'')
     = ([JStr ''ok'', JStr ''fail''], [JNum 2, JNum 1])"
proof
  show "determineChartType example_runtime
     (Some [[(''status'', JStr ''ok'')], [(''status'', JStr ''ok'')], [(''status'', JStr ''fail'')]])
     = Some (Pie ''status'')"
    by (simp add: chart_defs example_defs)
  show "getChartData example_runtime
       [[(''status'', JStr ''ok'')], [(''status'', JStr ''ok'')], [(''status'', JStr ''fail'')]]
       (Pie ''status'')
     = ([JStr ''ok'', JStr ''fail''], [JNum 2, JNum 1])"
  proof -
    have cats: "count_categories example_runtime ''status''
        [[(''status'', JStr ''ok'')], [(''status'', JStr ''ok'')], [(''status'', JStr ''fail'')]]
      = [(''ok'', JNum 2), (''fail'', JNum 1)]"
      by (simp add: getProp_def count_categories_def count_row_def setProp_def
          or_zero_plus_one_def Object_prototype_keys_def)
    show ?thesis
      by (simp add: cats Object_keys_def Object_values_def ownProperties_def
          isArrayIndex_def isDigit_def)
  qed
qed

text \<open>
  A category whose string is an array index is listed before the others, as the engine
  lists it: two rows \<open>ok\<close> and then one row \<open>7\<close>.
\<close>

lemma index_category_listed_first:
  "getChartData example_runtime
     [[(''status'', JStr ''ok'')], [(''status'', JStr ''ok'')], [(''status'', JStr ''7'')]]
     (Pie ''status'')
   = ([JStr ''7'', JStr ''ok''], [JNum 1, JNum 2])"
proof -
  have cats: "count_categories example_runtime ''status''
      [[(''status'', JStr ''ok'')], [(''status'', JStr ''ok'')], [(''status'', JStr ''7'')]]
    = [(''ok'', JNum 2), (''7'', JNum 1)]"
    by (simp add: getProp_def count_categories_def count_row_def setProp_def
        or_zero_plus_one_def Object_prototype_keys_def)
  show ?thesis
    by (simp add: cats Object_keys_def Object_values_def ownProperties_def
        isArrayIndex_def isDigit_def indexValue_def)
qed

text \<open>
  C4. A rowset of at most 10 rows whose first row has a single categorical column and no
  numeric column gets a pie chart on that column, and the claim is that the counts of the
  pie add up to the number of rows. The shape holds. The counts do not when a category
  is a name that every plain object inherits: for the one-row rowset
  \<open>[{status: "constructor"}]\<close> the lookup \<open>categories["constructor"]\<close> finds the
  inherited function, which is truthy, and adding 1 to it yields a string. The pie then
  holds that string where the count 1 should be.
\<close>

theorem pie_counts_inherited_key:
  "determineChartType example_runtime (Some [[(''status'', JStr ''constructor'')]])
     = Some (Pie ''status'')
   \<and> getChartData example_runtime [[(''status'', JStr ''constructor'')]] (Pie ''status'')
     = ([JStr ''constructor''], [JStr ''function Object() { [native code] }1''])
   \<and> \<not> list_all isCount (Object_values (count_categories example_runtime ''status''
        [[(''status'', JStr ''constructor'')]]))"
proof (intro conjI)
  show "determineChartType example_runtime (Some [[(''status'', JStr ''constructor'')]])
     = Some (Pie ''status'')"
    by (simp add: chart_defs example_defs)
  have cats: "count_categories example_runtime ''status'' [[(''status'', JStr ''constructor'')]]
     = [(''constructor'', JStr ''function Object() { [native code] }1'')]"
    by (simp add: getProp_def count_categories_def count_row_def setProp_def
        or_zero_plus_one_def Object_prototype_keys_def example_runtime_def)
  show "getChartData example_runtime [[(''status'', JStr ''constructor'')]] (Pie ''status'')
     = ([JStr ''constructor''], [JStr ''function Object() { [native code] }1''])"
    by (simp add: cats Object_keys_def Object_values_def ownProperties_def
        isArrayIndex_def isDigit_def)
  show "\<not> list_all isCount (Object_values (count_categories example_runtime ''status''
        [[(''status'', JStr ''constructor'')]]))"
    by (simp add: cats Object_values_all)
qed

section \<open>The chat view: catalog refresh and selection\<close>

text \<open>A successful refresh of the spreadsheet catalog leaves no entry selected.\<close>

lemma loadExcelTables_all_deselected:
  "list_all (\<lambda>table. \<not> selected table) (excelTables (fst (loadExcelTables (Some data) st)))"
  by (simp add: loadExcelTables_def list_all_iff)

lemma loadTables_all_deselected:
  "list_all (\<lambda>table. \<not> selected table) (availableTables (fst (loadTables (Some data) st)))"
  by (simp add: loadTables_def list_all_iff)

text \<open>
  C1. The claim is that a refresh whose snapshot still contains a selected resource
  leaves it selected. The periodic refresh of the spreadsheet catalog rebuilds every
  entry with \<open>selected: false\<close>: with the table \<open>sales\<close> selected by the user, a refresh
  whose snapshot still lists \<open>sales\<close> returns it deselected.
\<close>

theorem loadExcelTables_resets_selection:
  "map selected (excelTables (toggleTableSelection (JStr ''sales'') True
      \<lparr>messages = [], input = [], isLoading = False, availableTables = [],
       excelTables = [\<lparr>name = JStr ''sales'', selected = False,
                        original_filename = JStr ''sales.xlsx'',
                        expires_at = JStr ''2026-01-01T00:00:00''\<rparr>]\<rparr>)) = [True]
   \<and> excelTables (fst (loadExcelTables
        (Some [[(''name'', JStr ''sales''), (''original_filename'', JStr ''sales.xlsx''),
                (''description'', JStr ''Sales''), (''expires_at'', JStr ''2026-01-01T00:00:00'')]])
        (toggleTableSelection (JStr ''sales'') True
           \<lparr>messages = [], input = [], isLoading = False, availableTables = [],
            excelTables = [\<lparr>name = JStr ''sales'', selected = False,
                             original_filename = JStr ''sales.xlsx'',
                             expires_at = JStr ''2026-01-01T00:00:00''\<rparr>]\<rparr>)))
     = [\<lparr>name = JStr ''sales'', selected = False, original_filename = JStr ''sales.xlsx'',
          expires_at = JStr ''2026-01-01T00:00:00''\<rparr>]"
  by (simp add: toggleTableSelection_def loadExcelTables_def strict_eq_def getProp_def)

section \<open>The chat view: submitting a question\<close>

lemma trim_empty_iff: "trim s = [] \<longleftrightarrow> list_all isWhiteSpace s"
proof
  assume "list_all isWhiteSpace s"
  then have d: "dropWhile isWhiteSpace s = []" by (simp add: list_all_iff)
  show "trim s = []" unfolding trim_def d by simp
next
  assume t: "trim s = []"
  show "list_all isWhiteSpace s"
  proof (rule ccontr)
    assume "\<not> list_all isWhiteSpace s"
    then have ne: "dropWhile isWhiteSpace s \<noteq> []" by (simp add: list_all_iff)
    then have h: "\<not> isWhiteSpace (hd (dropWhile isWhiteSpace s))" by (rule hd_dropWhile)
    from t have "\<forall>c \<in> set (dropWhile isWhiteSpace s). isWhiteSpace c"
      by (simp add: trim_def)
    with ne h show False by (metis hd_in_set)
  qed
qed

lemma no_selection_iff:
  "allSelectedTables st = [] \<longleftrightarrow>
     list_all (\<lambda>table. \<not> selected table) (availableTables st)
     \<and> list_all (\<lambda>table. \<not> selected table) (excelTables st)"
  by (simp add: allSelectedTables_def list_all_iff filter_empty_conv)

text \<open>
  C9. When the input is empty or all white space, submitting sends no request and
  appends no message, whatever is selected: the state is returned as it was. The check
  of the selection comes after this one.
\<close>

theorem blank_input_ignored:
  assumes "list_all isWhiteSpace (input st)"
  shows "handleSubmit backend st = (st, [])"
  using assms by (simp add: handleSubmit_def trim_empty_iff)

theorem blank_input_ignored_witness:
  "list_all isWhiteSpace (input \<lparr>messages = [], input = ''  '', isLoading = False,
       availableTables = [], excelTables = []\<rparr>)
   \<and> handleSubmit (\<lambda>message tables. Rejected NoResponse)
        \<lparr>messages = [], input = ''  '', isLoading = False, availableTables = [],
         excelTables = []\<rparr>
      = (\<lparr>messages = [], input = ''  '', isLoading = False, availableTables = [],
          excelTables = []\<rparr>, [])"
proof -
  have b: "list_all isWhiteSpace (input \<lparr>messages = [], input = ''  '', isLoading = False,
       availableTables = [], excelTables = []\<rparr>)"
    by (simp add: isWhiteSpace_def)
  from blank_input_ignored [OF b] b show ?thesis by blast
qed

text \<open>
  C5. The claim is that in every state with nothing selected, submitting sends no request
  and appends exactly one error message with a fixed text. With a blank input and
  nothing selected the handler returns before the selection check: no message is
  appended.
\<close>

theorem no_selection_blank_input_silent:
  "messages (fst (handleSubmit (\<lambda>message tables. Rejected NoResponse)
      \<lparr>messages = [], input = '' '', isLoading = False,
       availableTables = [\<lparr>name = JStr ''orders'', selected = False, type = ''postgresql''\<rparr>],
       excelTables = []\<rparr>)) = []"
  by (simp add: handleSubmit_def trim_def isWhiteSpace_def)

text \<open>
  C5, as the code has it: when the input is not blank and nothing is selected in either
  catalog, submitting sends no request and appends exactly one error message, with the
  text \<open>Please select at least one table to query.\<close>; nothing else changes.
\<close>

theorem no_selection_error_message:
  assumes "\<not> list_all isWhiteSpace (input st)"
    and "list_all (\<lambda>table. \<not> selected table) (availableTables st)"
    and "list_all (\<lambda>table. \<not> selected table) (excelTables st)"
  shows "handleSubmit backend st =
           (st\<lparr>messages := messages st @
                  [ErrorMessage (JStr ''Please select at least one table to query.'')]\<rparr>, [])"
proof -
  from assms(2,3) have "allSelectedTables st = []" by (simp add: no_selection_iff)
  with assms(1) show ?thesis by (simp add: handleSubmit_def trim_empty_iff)
qed

theorem no_selection_error_message_witness:
  "\<not> list_all isWhiteSpace (input \<lparr>messages = [], input = ''total sales?'', isLoading = False,
       availableTables = [\<lparr>name = JStr ''orders'', selected = False, type = ''postgresql''\<rparr>],
       excelTables = []\<rparr>)
   \<and> handleSubmit (\<lambda>message tables. Rejected NoResponse)
        \<lparr>messages = [], input = ''total sales?'', isLoading = False,
         availableTables = [\<lparr>name = JStr ''orders'', selected = False, type = ''postgresql''\<rparr>],
         excelTables = []\<rparr>
     = (\<lparr>messages = [ErrorMessage (JStr ''Please select at least one table to query.'')],
         input = ''total sales?'', isLoading = False,
         availableTables = [\<lparr>name = JStr ''orders'', selected = False, type = ''postgresql''\<rparr>],
         excelTables = []\<rparr>, [])"
proof -
  let ?st = "\<lparr>messages = [], input = ''total sales?'', isLoading = False,
       availableTables = [\<lparr>name = JStr ''orders'', selected = False, type = ''postgresql''\<rparr>],
       excelTables = []\<rparr>"
  have a: "\<not> list_all isWhiteSpace (input ?st)" by (simp add: isWhiteSpace_def)
  have b: "list_all (\<lambda>table. \<not> selected table) (availableTables ?st)" by simp
  have c: "list_all (\<lambda>table. \<not> selected table) (excelTables ?st)" by simp
  from no_selection_error_message [OF a b c] a show ?thesis by simp
qed



section \<open>The configuration view: pending flags and adding a table\<close>

lemma isAnalyzing_iff:
  "isAnalyzing table \<longleftrightarrow> getProp table ''description'' = JStr ''Analyzing table structure...''"
  by (auto simp: isAnalyzing_def strict_eq_def)

lemma map_of_setProp_other: "k' \<noteq> k \<Longrightarrow> map_of (setProp obj k v) k' = map_of obj k'"
  by (simp add: setProp_def map_of_defineOwn)

lemma map_of_setProp_same: "k \<noteq> ''__proto__'' \<Longrightarrow> map_of (setProp obj k v) k = Some v"
  by (simp add: setProp_def map_of_defineOwn)

lemma fold_recordLoadingState_other:
  "k \<notin> set (map (tableKey rt) data) \<Longrightarrow>
     map_of (fold (recordLoadingState rt) data acc) k = map_of acc k"
  by (induction data arbitrary: acc) (auto simp: recordLoadingState_def map_of_setProp_other)

lemma fold_recordLoadingState_member:
  assumes "distinct (map (tableKey rt) data)" and "''__proto__'' \<notin> set (map (tableKey rt) data)"
    and "table \<in> set data"
  shows "map_of (fold (recordLoadingState rt) data acc) (tableKey rt table)
           = Some (JBool (isAnalyzing table))"
  using assms
proof (induction data arbitrary: acc)
  case Nil
  then show ?case by simp
next
  case (Cons t ts)
  show ?case
  proof (cases "table = t")
    case True
    from Cons.prems have k: "tableKey rt t \<notin> set (map (tableKey rt) ts)"
      and p: "tableKey rt t \<noteq> ''__proto__''" by auto
    have "map_of (fold (recordLoadingState rt) ts (recordLoadingState rt t acc)) (tableKey rt t)
        = map_of (recordLoadingState rt t acc) (tableKey rt t)"
      by (rule fold_recordLoadingState_other [OF k])
    also have "\<dots> = Some (JBool (isAnalyzing t))"
      using p by (simp add: recordLoadingState_def map_of_setProp_same)
    finally show ?thesis using True by simp
  next
    case False
    with Cons.prems have "table \<in> set ts" "distinct (map (tableKey rt) ts)"
      "''__proto__'' \<notin> set (map (tableKey rt) ts)" by auto
    from Cons.IH [OF this(2) this(3) this(1)] show ?thesis by simp
  qed
qed

text \<open>
  In a catalog whose names are distinct and none of which is \<open>__proto__\<close>, a table is
  shown as being analysed exactly when its description is the placeholder string.
\<close>

lemma newLoadingStates_classifies:
  assumes "distinct (map (tableKey rt) data)" and "''__proto__'' \<notin> set (map (tableKey rt) data)"
    and "table \<in> set data"
  shows "map_of (newLoadingStates rt data) (tableKey rt table) = Some (JBool (isAnalyzing table))
       \<and> (showsAnalyzing rt (newLoadingStates rt data) table \<longleftrightarrow>
            getProp table ''description'' = JStr ''Analyzing table structure...'')"
  using fold_recordLoadingState_member [OF assms, of "[]"]
  by (simp add: newLoadingStates_def showsAnalyzing_def getProp_def isAnalyzing_iff)

text \<open>
  A table whose name is \<open>__proto__\<close> gets no flag and is shown as being analysed,
  whatever its description and whatever else the catalog holds.
\<close>

lemma fold_recordLoadingState_proto:
  "map_of acc ''__proto__'' = None \<Longrightarrow>
     map_of (fold (recordLoadingState rt) data acc) ''__proto__'' = None"
proof (induction data arbitrary: acc)
  case Nil
  then show ?case by simp
next
  case (Cons t ts)
  from Cons.prems have "map_of (recordLoadingState rt t acc) ''__proto__'' = None"
    by (cases "tableKey rt t = ''__proto__''")
      (simp_all add: recordLoadingState_def setProp_def map_of_defineOwn)
  from Cons.IH [OF this] show ?case by simp
qed

lemma proto_name_shown_analyzing:
  assumes "tableKey rt table = ''__proto__''"
  shows "map_of (newLoadingStates rt data) (tableKey rt table) = None
       \<and> showsAnalyzing rt (newLoadingStates rt data) table"
  using fold_recordLoadingState_proto [of "[]" rt data] assms
  by (simp add: newLoadingStates_def showsAnalyzing_def getProp_def Object_prototype_keys_def)

text \<open>
  C7. The claim is that, for every fetched catalog, a table counts as pending exactly
  when its description is the string \<open>Analyzing table structure...\<close>. For a table named
  \<open>__proto__\<close> the assignment \<open>newLoadingStates["__proto__"] = false\<close> reaches the
  inherited setter and records nothing, and the later read \<open>loadingStates["__proto__"]\<close>
  yields the prototype object, which is truthy: the table is shown as being analysed
  although its description is an ordinary text, and the polling condition does not see it.
\<close>

theorem loadTables_config_proto_name:
  "loadingStates (fst (loadTables_config example_runtime
      (Some [[(''name'', JStr ''__proto__''), (''description'', JStr ''Order lines'')]])
      \<lparr>tables = [], availableTables_config = [], selectedTable = JStr [],
       loadingStates = [], addingTable = False, error = JNull\<rparr>)) = []
   \<and> \<not> isAnalyzing [(''name'', JStr ''__proto__''), (''description'', JStr ''Order lines'')]
   \<and> showsAnalyzing example_runtime []
        [(''name'', JStr ''__proto__''), (''description'', JStr ''Order lines'')]
   \<and> \<not> hasLoadingTables []"
  by (simp add: loadTables_config_def newLoadingStates_def recordLoadingState_def tableKey_def
      isAnalyzing_def strict_eq_def setProp_def getProp_def showsAnalyzing_def
      hasLoadingTables_def Object_values_def ownProperties_def Object_prototype_keys_def)

text \<open>
  C6. The claim is that adding with an empty name, or with a name already configured,
  fails with a validation error. With an empty selection the handler returns at once:
  no request, no state change, no error message. With the configured name \<open>orders\<close>
  selected it sends the add request like any other; here the backend refuses it, and the
  view still reports no error.
\<close>

theorem addTable_no_validation:
  "addTable example_runtime True (Some [])
      \<lparr>tables = [], availableTables_config = [JStr ''orders''], selectedTable = JStr [],
       loadingStates = [], addingTable = False, error = JNull\<rparr>
     = (\<lparr>tables = [], availableTables_config = [JStr ''orders''], selectedTable = JStr [],
         loadingStates = [], addingTable = False, error = JNull\<rparr>, [])
   \<and> addTable example_runtime False None
      \<lparr>tables = [[(''name'', JStr ''orders''), (''description'', JStr ''Orders'')]],
       availableTables_config = [JStr ''orders''], selectedTable = JStr ''orders'',
       loadingStates = [(''orders'', JBool False)], addingTable = False, error = JNull\<rparr>
     = (\<lparr>tables = [[(''name'', JStr ''orders''), (''description'', JStr ''Orders'')]],
         availableTables_config = [JStr ''orders''], selectedTable = JStr ''orders'',
         loadingStates = [(''orders'', JBool False)], addingTable = False, error = JNull\<rparr>,
        [POST_tables (JStr ''orders'')])"
  by (simp add: addTable_def)

text \<open>
  C6, as the code has it. With an empty selection \<open>addTable\<close> does nothing: no request,
  no state change. With a selection it sends the add request; when the request succeeds
  the selected name is marked pending before the refresh and exactly one catalog fetch
  follows, and when it fails nothing is marked and nothing is fetched. The handler never
  sets the error message. It makes no check against the configured tables: the dropdown
  it reads its selection from offers only names that no configured table carries.
\<close>

theorem addTable_behaviour:
  "(\<not> truthy (selectedTable st) \<longrightarrow> addTable rt posted refresh st = (st, []))
   \<and> (truthy (selectedTable st) \<longrightarrow>
        getProp (loadingStates (markLoading rt (st\<lparr>addingTable := True\<rparr>)))
          (ToString rt (selectedTable st)) = JBool True
        \<and> addTable rt True refresh st =
            ((fst (loadTables_config rt refresh (markLoading rt (st\<lparr>addingTable := True\<rparr>))))
               \<lparr>addingTable := False\<rparr>,
             [POST_tables (selectedTable st), GET_tables])
        \<and> addTable rt False refresh st =
            (st\<lparr>addingTable := False\<rparr>, [POST_tables (selectedTable st)]))
   \<and> error (fst (addTable rt posted refresh st)) = error st
   \<and> (\<forall>table \<in> set (availableUnconfiguredTables st). \<forall>configuredTable \<in> set (tables st).
         \<not> strict_eq (getProp configuredTable ''name'') table)"
proof (intro conjI impI ballI)
  assume "\<not> truthy (selectedTable st)"
  then show "addTable rt posted refresh st = (st, [])" by (simp add: addTable_def)
next
  show "getProp (loadingStates (markLoading rt (st\<lparr>addingTable := True\<rparr>)))
          (ToString rt (selectedTable st)) = JBool True"
    by (simp add: markLoading_def getProp_def map_of_defineOwn)
next
  assume "truthy (selectedTable st)"
  then show "addTable rt True refresh st =
            ((fst (loadTables_config rt refresh (markLoading rt (st\<lparr>addingTable := True\<rparr>))))
               \<lparr>addingTable := False\<rparr>,
             [POST_tables (selectedTable st), GET_tables])"
    by (cases refresh) (simp_all add: addTable_def loadTables_config_def)
next
  assume "truthy (selectedTable st)"
  then show "addTable rt False refresh st =
            (st\<lparr>addingTable := False\<rparr>, [POST_tables (selectedTable st)])"
    by (simp add: addTable_def)
next
  show "error (fst (addTable rt posted refresh st)) = error st"
    by (cases refresh; cases posted)
      (simp_all add: addTable_def loadTables_config_def markLoading_def Let_def)
next
  fix table configuredTable
  assume "table \<in> set (availableUnconfiguredTables st)" and "configuredTable \<in> set (tables st)"
  then show "\<not> strict_eq (getProp configuredTable ''name'') table"
    by (auto simp: availableUnconfiguredTables_def list_ex_iff)
qed

theorem addTable_behaviour_witness:
  "\<not> truthy (selectedTable (example_config\<lparr>selectedTable := JStr []\<rparr>))
   \<and> addTable example_runtime True (Some example_catalog)
        (example_config\<lparr>selectedTable := JStr []\<rparr>)
     = (example_config\<lparr>selectedTable := JStr []\<rparr>, [])
   \<and> truthy (selectedTable example_config)
   \<and> getProp (loadingStates (markLoading example_runtime (example_config\<lparr>addingTable := True\<rparr>)))
        ''customers'' = JBool True
   \<and> addTable example_runtime True (Some example_catalog) example_config
     = (\<lparr>tables = example_catalog,
         availableTables_config = [JStr ''orders'', JStr ''customers''],
         selectedTable = JStr [],
         loadingStates = [(''orders'', JBool False), (''customers'', JBool True)],
         addingTable = False,
         error = JNull\<rparr>,
        [POST_tables (JStr ''customers''), GET_tables])
   \<and> addTable example_runtime False (Some example_catalog) example_config
     = (example_config, [POST_tables (JStr ''customers'')])
   \<and> error (fst (addTable example_runtime True (Some example_catalog) example_config)) = JNull
   \<and> JStr ''customers'' \<in> set (availableUnconfiguredTables example_config)
   \<and> [(''name'', JStr ''orders''), (''description'', JStr ''Order lines'')]
        \<in> set (tables example_config)
   \<and> \<not> strict_eq (getProp [(''name'', JStr ''orders''), (''description'', JStr ''Order lines'')]
                      ''name'')
          (JStr ''customers'')"
proof -
  let ?empty = "example_config\<lparr>selectedTable := JStr []\<rparr>"
  let ?orders = "[(''name'', JStr ''orders''), (''description'', JStr ''Order lines'')]"
  have e: "\<not> truthy (selectedTable ?empty)" by simp
  have t: "truthy (selectedTable example_config)" by (simp add: example_config_def)
  have key: "ToString example_runtime (selectedTable example_config) = ''customers''"
    by (simp add: example_config_def)
  have off: "JStr ''customers'' \<in> set (availableUnconfiguredTables example_config)"
    by (simp add: availableUnconfiguredTables_def example_config_def strict_eq_def getProp_def)
  have conf: "?orders \<in> set (tables example_config)" by (simp add: example_config_def)
  have after: "(fst (loadTables_config example_runtime (Some example_catalog)
                  (markLoading example_runtime (example_config\<lparr>addingTable := True\<rparr>))))
                 \<lparr>addingTable := False\<rparr>
     = \<lparr>tables = example_catalog,
        availableTables_config = [JStr ''orders'', JStr ''customers''],
        selectedTable = JStr [],
        loadingStates = [(''orders'', JBool False), (''customers'', JBool True)],
        addingTable = False,
        error = JNull\<rparr>"
    by (simp add: loadTables_config_def markLoading_def example_config_def example_catalog_def
        newLoadingStates_def recordLoadingState_def tableKey_def isAnalyzing_def strict_eq_def
        setProp_def getProp_def)
  have idle: "example_config\<lparr>addingTable := False\<rparr> = example_config"
    by (simp add: example_config_def)
  have same: "error example_config = JNull" by (simp add: example_config_def)
  note b1 = addTable_behaviour [of ?empty example_runtime True "Some example_catalog"]
  note b2 = addTable_behaviour [of example_config example_runtime True "Some example_catalog"]
  from b1 e have r1: "addTable example_runtime True (Some example_catalog) ?empty = (?empty, [])"
    by blast
  from b2 t key
  have r2: "getProp (loadingStates (markLoading example_runtime
                (example_config\<lparr>addingTable := True\<rparr>))) ''customers'' = JBool True"
    by simp
  from b2 t after
  have r3: "addTable example_runtime True (Some example_catalog) example_config
     = (\<lparr>tables = example_catalog,
         availableTables_config = [JStr ''orders'', JStr ''customers''],
         selectedTable = JStr [],
         loadingStates = [(''orders'', JBool False), (''customers'', JBool True)],
         addingTable = False,
         error = JNull\<rparr>,
        [POST_tables (JStr ''customers''), GET_tables])"
    by (simp add: example_config_def)
  from b2 t idle
  have r4: "addTable example_runtime False (Some example_catalog) example_config
     = (example_config, [POST_tables (JStr ''customers'')])"
    by (simp add: example_config_def)
  from b2 same
  have r5: "error (fst (addTable example_runtime True (Some example_catalog) example_config))
              = JNull"
    by simp
  from b2 off conf
  have r6: "\<not> strict_eq (getProp ?orders ''name'') (JStr ''customers'')" by blast
  show ?thesis using e r1 t r2 r3 r4 r5 off conf r6 by blast
qed

end
